theory Spec2Isabelle
  imports Main "HOL-Library.Log_Nat"
begin

section \<open>The terminal client of sotui: data model\<close>

text \<open>
  The program is a Bubble Tea application: one \<open>Model\<close> value, an \<open>Update\<close> function that
  receives one message at a time and returns the next model together with a command, and a
  \<open>View\<close> function that renders the model.  The embedding follows \<open>src/tui.go\<close>.
\<close>

subsection \<open>Enumerations and messages\<close>

datatype State =
    WaitingForInput
  | WaitingForResponse
  | DisplayingAllQuestions
  | DisplayingQuestionAndAnswers
  | DisplayingAllComments
  | DisplayingHelpScreen

datatype LogType = Info | Warning | Error

record Log =
  Msg :: string
  Type :: LogType

text \<open>
  Modelled from the spec: the types \<open>SEResponse\<close> and \<open>ResponseItem\<close> are declared in a file
  of the repository that is not under \<open>src/\<close>.  \<open>tui.go\<close> reads \<open>Items\<close>, \<open>QuestionID\<close>,
  \<open>Title\<close>, \<open>BodyMarkdown\<close> and \<open>Answers\<close>; score and view count are the two further
  attributes that section 3 of the spec lists for a result item.
\<close>

record Answer =
  ans_BodyMarkdown :: string

record ResponseItem =
  QuestionID :: int
  Title :: string
  BodyMarkdown :: string
  Score :: int
  ViewCount :: int
  Answers :: "Answer list"

record SEResponse =
  Items :: "ResponseItem list"

text \<open>The zero value \<open>ResponseItem{}\<close> of Go.\<close>

definition ResponseItem_zero :: ResponseItem where
  "ResponseItem_zero =
     \<lparr>QuestionID = 0, Title = [], BodyMarkdown = [], Score = 0, ViewCount = 0, Answers = []\<rparr>"

text \<open>
  Commands (\<open>tea.Cmd\<close>).  \<open>getLogCmd msg t\<close> is the closure that \<open>getLogCmd\<close> of the source
  returns: run by the runtime, it delivers \<open>logMsg{msg, t}\<close>.  \<open>LibCmd\<close> stands for a command
  that one of the widgets of the \<open>bubbles\<close> library returned; \<open>logMsg\<close> is a type private to
  package \<open>main\<close>, so no library command can deliver one.
\<close>

datatype Cmd =
    CmdNil
  | Quit
  | DisableMouse
  | EnableMouseCellMotion
  | spinner_Tick
  | getLogCmd string LogType
  | LibCmd nat
  | Batch "Cmd list"
  | Sequence "Cmd list"

fun cmd_of :: "nat option \<Rightarrow> Cmd" where
  "cmd_of None = CmdNil"
| "cmd_of (Some k) = LibCmd k"

datatype KeyType =
    KeyCtrlS | KeyCtrlC | KeyEsc | KeyBackspace | KeyEnter
  | KeyRunes string
  | KeyOther nat

text \<open>
  Messages (\<open>tea.Msg\<close> is the empty interface).  \<open>errMsg\<close> carries the text that \<open>Error()\<close>
  returns.  \<open>CmdValue\<close> is a \<open>tea.Cmd\<close> value sent as a message: the notification timer
  calls \<open>tui.Send(getLogCmd("", Info))\<close>, which sends the closure itself.  \<open>OtherMsg\<close> is any
  other message (mouse events, spinner ticks, cursor blinks).
\<close>

datatype Msg =
    WindowSizeMsg (Width: int) (Height: int)
  | KeyMsg KeyType
  | SEResponseMsg SEResponse
  | logMsg Log
  | errMsg string
  | CmdValue Cmd
  | OtherMsg nat

text \<open>
  What a call of \<open>Update\<close> starts with a \<open>go\<close> statement: the search
  (\<open>Search(question, "", "", "", "")\<close> followed by \<open>tui.Send(resp)\<close>) and the notification
  timer (\<open>time.Sleep(3 * time.Second)\<close> followed by \<open>tui.Send\<close> of a command value).
\<close>

datatype Go =
    GoSearch string
  | GoSleepSend nat Cmd

datatype panic = IndexOutOfRange | NegativeRepeatCount

subsection \<open>Widgets\<close>

text \<open>
  The four widgets come from the \<open>bubbles\<close> library, which is not part of the repository.
  Each is a record of the attributes that \<open>tui.go\<close> sets or reads; setters and getters are
  the field updates their names say.  What the library does with a message (its own
  \<open>Update\<close>), how it renders, and what \<open>SetRows\<close> does to the cursor are parameters,
  collected in the record \<open>lib\<close> below.
\<close>

record table_Column =
  col_Title :: string
  col_Width :: int

type_synonym table_Row = "string list"

record table_Model =
  tb_cols :: "table_Column list"
  tb_rows :: "table_Row list"
  tb_cursor :: int
  tb_focus :: bool
  tb_width :: int
  tb_height :: int

record textarea_Model =
  ta_value :: string
  ta_focus :: bool
  ta_width :: int

record viewport_Model =
  vp_Width :: int
  vp_Height :: int
  vp_content :: string
  vp_YOffset :: int

record spinner_Model =
  sp_frame :: nat

record Model =
  table :: table_Model
  textarea :: textarea_Model
  viewport :: viewport_Model
  spinner :: spinner_Model
  mouse :: bool
  response :: SEResponse
  state :: State
  err :: "string option"

record lib =
  ta_Update :: "textarea_Model \<Rightarrow> Msg \<Rightarrow> textarea_Model \<times> nat option"
  tb_Update :: "table_Model \<Rightarrow> Msg \<Rightarrow> table_Model \<times> nat option"
  vp_Update :: "viewport_Model \<Rightarrow> Msg \<Rightarrow> viewport_Model \<times> nat option"
  sp_Update :: "spinner_Model \<Rightarrow> Msg \<Rightarrow> spinner_Model \<times> nat option"
  tb_SetRows :: "table_Model \<Rightarrow> table_Row list \<Rightarrow> table_Model"
  ta_View :: "textarea_Model \<Rightarrow> string"
  tb_View :: "table_Model \<Rightarrow> string"
  vp_View :: "viewport_Model \<Rightarrow> string"
  sp_View :: "spinner_Model \<Rightarrow> string"
  glamour_Render :: "string \<Rightarrow> string"
  hr_Render :: "string \<Rightarrow> string"
  BorderStyle_Render :: "string \<Rightarrow> string"
  strconv_Atoi :: "string \<Rightarrow> int"
  strconv_Itoa :: "int \<Rightarrow> string"

text \<open>
  \<open>table.SelectedRow\<close>: the row under the cursor, \<open>nil\<close> (the empty slice) when the cursor
  is outside the rows.
\<close>

definition SelectedRow :: "table_Model \<Rightarrow> table_Row" where
  "SelectedRow t =
     (if tb_cursor t < 0 \<or> tb_cursor t \<ge> int (length (tb_rows t)) then []
      else tb_rows t ! nat (tb_cursor t))"

text \<open>\<open>strings.Repeat\<close> panics on a negative count.\<close>

definition strings_Repeat :: "string \<Rightarrow> int \<Rightarrow> panic + string" where
  "strings_Repeat s n =
     (if n < 0 then Inl NegativeRepeatCount else Inr (concat (replicate (nat n) s)))"

text \<open>
  Modelled from the spec: \<open>SEResponse.ToRows\<close> is declared outside \<open>src/\<close>.  Section 4.3:
  one row per item, in order, with the columns identifier, title, score and view count as
  display strings.
\<close>

definition ToRows :: "lib \<Rightarrow> SEResponse \<Rightarrow> table_Row list" where
  "ToRows l r =
     map (\<lambda>it. [strconv_Itoa l (QuestionID it), Title it,
                 strconv_Itoa l (Score it), strconv_Itoa l (ViewCount it)]) (Items r)"

subsection \<open>Single-precision arithmetic of the column widths\<close>

text \<open>
  \<open>int(0.1 * float32(w))\<close> converts \<open>w\<close> to \<open>float32\<close>, multiplies by the constant rounded to
  \<open>float32\<close>, rounds the product to \<open>float32\<close> and truncates toward zero.  A non-negative
  value is kept as a natural number of units \<open>2^-k\<close>; \<open>f32_round\<close> rounds it to a 24-bit
  significand, ties to even (no \<open>int\<close> of 64 bits leaves the normal range of \<open>float32\<close>).
\<close>

definition rne :: "nat \<Rightarrow> nat \<Rightarrow> nat" where
  "rne p s =
     (let q = p div 2 ^ s; r = p mod 2 ^ s; h = 2 ^ (s - 1)
      in if s = 0 then p else if r < h \<or> (r = h \<and> even q) then q else q + 1)"

definition f32_round :: "nat \<Rightarrow> nat" where
  "f32_round p = (let s = floorlog 2 p - 24 in rne p s * 2 ^ s)"

text \<open>\<open>int((c / 2^k) * float32(w))\<close> for a constant with significand \<open>c\<close>.\<close>

definition f32_scale :: "nat \<Rightarrow> nat \<Rightarrow> int \<Rightarrow> int" where
  "f32_scale c k w = sgn w * int (f32_round (c * f32_round (nat \<bar>w\<bar>)) div 2 ^ k)"

text \<open>The constants \<open>0.1\<close>, \<open>0.7\<close> and \<open>0.2\<close> as \<open>float32\<close>: significand and exponent.\<close>

definition tenth :: "int \<Rightarrow> int" where
  "tenth w = f32_scale 13421773 27 w"

definition seven_tenths :: "int \<Rightarrow> int" where
  "seven_tenths w = f32_scale 11744051 24 w"

definition two_tenths :: "int \<Rightarrow> int" where
  "two_tenths w = f32_scale 13421773 26 w"

section \<open>The operations of \<open>tui.go\<close>\<close>

definition SetTableHeaders :: "Model \<Rightarrow> Model" where
  "SetTableHeaders m =
     (let w = tb_width (table m);
          columns =
            [\<lparr>col_Title = ''ID'', col_Width = tenth w\<rparr>,
             \<lparr>col_Title = ''Title'', col_Width = seven_tenths w\<rparr>,
             \<lparr>col_Title = ''Score'', col_Width = tenth w\<rparr>,
             \<lparr>col_Title = ''Views'', col_Width = two_tenths w\<rparr>]
      in m\<lparr>table := (table m)\<lparr>tb_cols := columns\<rparr>\<rparr>)"

definition initialModel :: Model where
  "initialModel =
     SetTableHeaders
       \<lparr>table = \<lparr>tb_cols = [], tb_rows = [], tb_cursor = 0, tb_focus = False,
                  tb_width = 30, tb_height = 10\<rparr>,
        textarea = \<lparr>ta_value = [], ta_focus = True, ta_width = 30\<rparr>,
        viewport = \<lparr>vp_Width = 30, vp_Height = 3, vp_content = [], vp_YOffset = 0\<rparr>,
        spinner = \<lparr>sp_frame = 0\<rparr>,
        mouse = True,
        response = \<lparr>Items = []\<rparr>,
        state = WaitingForInput,
        err = None\<rparr>"

text \<open>
  The first four statements of \<open>Update\<close>: every widget receives the message, whatever the
  state is.
\<close>

definition widgets :: "lib \<Rightarrow> Model \<Rightarrow> Msg \<Rightarrow> Model" where
  "widgets l m msg =
     m\<lparr>textarea := fst (ta_Update l (textarea m) msg),
       table := fst (tb_Update l (table m) msg),
       viewport := fst (vp_Update l (viewport m) msg),
       spinner := fst (sp_Update l (spinner m) msg)\<rparr>"

definition tiCmd :: "lib \<Rightarrow> Model \<Rightarrow> Msg \<Rightarrow> Cmd" where
  "tiCmd l m msg = cmd_of (snd (ta_Update l (textarea m) msg))"

definition taCmd :: "lib \<Rightarrow> Model \<Rightarrow> Msg \<Rightarrow> Cmd" where
  "taCmd l m msg = cmd_of (snd (tb_Update l (table m) msg))"

definition vpCmd :: "lib \<Rightarrow> Model \<Rightarrow> Msg \<Rightarrow> Cmd" where
  "vpCmd l m msg = cmd_of (snd (vp_Update l (viewport m) msg))"

definition spCmd :: "lib \<Rightarrow> Model \<Rightarrow> Msg \<Rightarrow> Cmd" where
  "spCmd l m msg = cmd_of (snd (sp_Update l (spinner m) msg))"

text \<open>The anonymous function of the confirm branch: the first item with the identifier.\<close>

fun find_item :: "ResponseItem list \<Rightarrow> int \<Rightarrow> ResponseItem" where
  "find_item [] i = ResponseItem_zero"
| "find_item (item # items) i = (if QuestionID item = i then item else find_item items i)"

text \<open>The document of the detail view, given the horizontal rule.\<close>

definition document :: "lib \<Rightarrow> string \<Rightarrow> ResponseItem \<Rightarrow> string" where
  "document l hr row =
     (let question =
            glamour_Render l (''# '' @ Title row @ [CHR 0x0A, CHR 0x0A] @ BodyMarkdown row);
          answers0 =
            glamour_Render l
              ([CHR 0x0A, CHR 0x0A, CHR 0x0A, CHR 0x0A] @ ''# Answers:'' @ [CHR 0x0A, CHR 0x0A]);
          answers =
            foldl (\<lambda>acc answer.
                     acc @ BorderStyle_Render l
                             (glamour_Render l (ans_BodyMarkdown answer) @ [CHR 0x0A, CHR 0x0A]))
                  answers0 (Answers row)
      in question @ hr @ answers)"

text \<open>
  \<open>Update\<close> returns the next model, the command, and the goroutines it started; a panic is
  the left summand.  In the confirm branch of \<open>WaitingForInput\<close> the goroutine reads the
  text of the input, resets the variable it captured and searches; the model that
  \<open>return m\<close> copies is the one below (the reset races with that copy).
\<close>

definition Update :: "lib \<Rightarrow> Model \<Rightarrow> Msg \<Rightarrow> panic + (Model \<times> Cmd \<times> Go list)" where
  "Update l m0 msg =
    (let m = widgets l m0 msg;
         batch = Batch [tiCmd l m0 msg, taCmd l m0 msg, vpCmd l m0 msg, spCmd l m0 msg]
     in case msg of
       WindowSizeMsg w h \<Rightarrow>
         (let m1 = m\<lparr>table := (table m)\<lparr>tb_height := h - 2, tb_width := w - 4\<rparr>\<rparr>;
              m2 = SetTableHeaders m1;
              m3 = m2\<lparr>viewport := (viewport m2)\<lparr>vp_Height := h - 2, vp_Width := w - 4\<rparr>\<rparr>;
              m4 = m3\<lparr>textarea := (textarea m3)\<lparr>ta_width := w - 4\<rparr>\<rparr>
          in Inr (m4, batch, []))
     | KeyMsg k \<Rightarrow>
         (case k of
            KeyCtrlS \<Rightarrow>
              (if mouse m
               then Inr (m\<lparr>mouse := False\<rparr>,
                         Sequence [DisableMouse, getLogCmd ''Disabled mouse scroll/clicks'' Info],
                         [])
               else Inr (m\<lparr>mouse := True\<rparr>,
                         Sequence [EnableMouseCellMotion,
                                   getLogCmd ''Enabled mouse scroll/clicks'' Info],
                         []))
          | KeyCtrlC \<Rightarrow> Inr (m, Quit, [])
          | KeyEsc \<Rightarrow> Inr (m, Quit, [])
          | KeyBackspace \<Rightarrow>
              (if state m = DisplayingHelpScreen
               then Inr (m\<lparr>state := WaitingForInput\<rparr>, CmdNil, [])
               else if state m = DisplayingAllComments
               then Inr (m\<lparr>state := DisplayingQuestionAndAnswers\<rparr>, CmdNil, [])
               else if state m = DisplayingQuestionAndAnswers
               then Inr (m\<lparr>state := DisplayingAllQuestions,
                           table := (table m)\<lparr>tb_focus := True\<rparr>\<rparr>, CmdNil, [])
               else if state m = DisplayingAllQuestions
               then Inr (m\<lparr>state := WaitingForInput,
                           textarea := (textarea m)\<lparr>ta_focus := True\<rparr>\<rparr>, CmdNil, [])
               else Inr (m, batch, []))
          | KeyEnter \<Rightarrow>
              (if state m = WaitingForInput
               then Inr (m\<lparr>state := WaitingForResponse\<rparr>,
                         Batch [vpCmd l m0 msg, spinner_Tick],
                         [GoSearch (ta_value (textarea m))])
               else if state m = DisplayingAllQuestions
               then
                 (let m1 = m\<lparr>state := DisplayingQuestionAndAnswers,
                              table := (table m)\<lparr>tb_focus := False\<rparr>\<rparr>
                  in case SelectedRow (table m1) of
                       [] \<Rightarrow> Inl IndexOutOfRange
                     | cell # cells \<Rightarrow>
                         (let selectedRowId = strconv_Atoi l cell;
                              row = find_item (Items (response m1)) selectedRowId
                          in case strings_Repeat ''-'' (vp_Width (viewport m1)) of
                               Inl p \<Rightarrow> Inl p
                             | Inr dashes \<Rightarrow>
                                 Inr (m1\<lparr>viewport := (viewport m1)
                                            \<lparr>vp_content := document l (hr_Render l dashes) row,
                                             vp_YOffset := 0\<rparr>\<rparr>,
                                      CmdNil, [])))
               else Inr (m, batch, []))
          | _ \<Rightarrow> Inr (m, batch, []))
     | SEResponseMsg r \<Rightarrow>
         (if length (Items r) = 0
          then Inr (m\<lparr>state := WaitingForInput,
                      textarea := (textarea m)\<lparr>ta_focus := False, ta_value := []\<rparr>\<rparr>,
                    Batch [tiCmd l m0 msg, taCmd l m0 msg, vpCmd l m0 msg, spCmd l m0 msg,
                           getLogCmd ''No results found'' Warning],
                    [])
          else Inr (m\<lparr>response := r,
                      state := DisplayingAllQuestions,
                      table := (tb_SetRows l (table m) (ToRows l r))\<lparr>tb_focus := True\<rparr>,
                      textarea := (textarea m)\<lparr>ta_focus := False\<rparr>\<rparr>,
                    CmdNil, []))
     | logMsg lg \<Rightarrow>
         (if Msg lg = [] then Inr (m, CmdNil, [])
          else Inr (m, CmdNil, [GoSleepSend 3 (getLogCmd [] Info)]))
     | errMsg e \<Rightarrow> Inr (m\<lparr>err := Some e\<rparr>, CmdNil, [])
     | _ \<Rightarrow> Inr (m, batch, []))"

definition View :: "lib \<Rightarrow> Model \<Rightarrow> string" where
  "View l m =
     (case err m of
        Some e \<Rightarrow> e
      | None \<Rightarrow>
          if state m = WaitingForInput then ta_View l (textarea m)
          else if state m = WaitingForResponse then sp_View l (spinner m) @ '' Searching...''
          else if state m = DisplayingAllQuestions then tb_View l (table m)
          else if state m = DisplayingQuestionAndAnswers \<or> state m = DisplayingAllComments
                  \<or> state m = DisplayingHelpScreen
          then vp_View l (viewport m)
          else [])"


section \<open>Observing a step, and the event loop\<close>

type_synonym result = "panic + (Model \<times> Cmd \<times> Go list)"

definition model_of :: "result \<Rightarrow> Model option" where
  "model_of r = (case r of Inl p \<Rightarrow> None | Inr x \<Rightarrow> Some (fst x))"

definition state_of :: "result \<Rightarrow> State option" where
  "state_of r = map_option state (model_of r)"

definition command_of :: "result \<Rightarrow> Cmd" where
  "command_of r = (case r of Inl p \<Rightarrow> CmdNil | Inr x \<Rightarrow> fst (snd x))"

definition started :: "result \<Rightarrow> Go list" where
  "started r = (case r of Inl p \<Rightarrow> [] | Inr x \<Rightarrow> snd (snd x))"

definition column_widths :: "result \<Rightarrow> int list" where
  "column_widths r =
     (case r of Inl p \<Rightarrow> [] | Inr x \<Rightarrow> map col_Width (tb_cols (table (fst x))))"

definition table_width :: "result \<Rightarrow> int" where
  "table_width r = (case r of Inl p \<Rightarrow> 0 | Inr x \<Rightarrow> tb_width (table (fst x)))"

text \<open>The notifications that running a command delivers to \<open>Update\<close>.\<close>

fun logs_of :: "Cmd \<Rightarrow> Log list" where
  "logs_of (getLogCmd s t) = [\<lparr>Msg = s, Type = t\<rparr>]"
| "logs_of (Batch cs) = concat (map logs_of cs)"
| "logs_of (Sequence cs) = concat (map logs_of cs)"
| "logs_of c = []"

text \<open>The queries of the searches among the goroutines that a step started.\<close>

fun searches :: "Go list \<Rightarrow> string list" where
  "searches [] = []"
| "searches (GoSearch q # gs) = q # searches gs"
| "searches (GoSleepSend d c # gs) = searches gs"

definition with_err :: "string option \<Rightarrow> result \<Rightarrow> result" where
  "with_err e r = (case r of Inl p \<Rightarrow> Inl p | Inr x \<Rightarrow> Inr ((fst x)\<lparr>err := e\<rparr>, snd x))"

text \<open>
  The sessions that some sequence of messages leads to, starting from \<open>initialModel\<close>;
  a step that panics leads nowhere.
\<close>

inductive reachable :: "lib \<Rightarrow> Model \<Rightarrow> bool" for l where
  start: "reachable l initialModel"
| step: "reachable l m \<Longrightarrow> Update l m msg = Inr (m', c, g) \<Longrightarrow> reachable l m'"

text \<open>
  The event loop with the searches in flight counted.  The only \<open>tui.Send\<close> of an
  \<open>SEResponse\<close> is the last statement of the search goroutine, so a search outcome is
  delivered only for a search in flight, and ends it; every other message can arrive at
  any time.
\<close>

inductive loop :: "lib \<Rightarrow> Model \<Rightarrow> nat \<Rightarrow> bool" for l where
  boot: "loop l initialModel 0"
| event: "loop l m n \<Longrightarrow> (\<forall>r. msg \<noteq> SEResponseMsg r) \<Longrightarrow> Update l m msg = Inr (m', c, g)
          \<Longrightarrow> loop l m' (n + length (searches g))"
| outcome: "loop l m (Suc n) \<Longrightarrow> Update l m (SEResponseMsg r) = Inr (m', c, g)
          \<Longrightarrow> loop l m' (n + length (searches g))"

subsection \<open>What the table widget is relied on for\<close>

definition cursor_ok :: "table_Model \<Rightarrow> bool" where
  "cursor_ok t \<longleftrightarrow> 0 \<le> tb_cursor t \<and> tb_cursor t < int (length (tb_rows t))"


subsection \<open>A plain widget library and some sessions\<close>

text \<open>
  One library that meets \<open>table_contract\<close>: the text area appends the runes typed while it
  has focus, the table moves its cursor on \<open>j\<close> and \<open>k\<close> and clamps it, markdown and the rule
  are rendered as they are, the border is a pair of brackets, and integers are printed and
  read in decimal.
\<close>

definition digits :: "(char \<times> nat) list" where
  "digits = [(CHR ''0'', 0), (CHR ''1'', 1), (CHR ''2'', 2), (CHR ''3'', 3), (CHR ''4'', 4),
             (CHR ''5'', 5), (CHR ''6'', 6), (CHR ''7'', 7), (CHR ''8'', 8), (CHR ''9'', 9)]"

fun parse_nat :: "string \<Rightarrow> nat \<Rightarrow> nat option" where
  "parse_nat [] acc = Some acc"
| "parse_nat (c # cs) acc =
     (case map_of digits c of None \<Rightarrow> None | Some d \<Rightarrow> parse_nat cs (10 * acc + d))"

definition plain_Atoi :: "string \<Rightarrow> int" where
  "plain_Atoi s =
     (case s of
        [] \<Rightarrow> 0
      | c # cs \<Rightarrow>
          if c = CHR ''-'' \<and> cs \<noteq> []
          then (case parse_nat cs 0 of None \<Rightarrow> 0 | Some n \<Rightarrow> - int n)
          else (case parse_nat s 0 of None \<Rightarrow> 0 | Some n \<Rightarrow> int n))"

fun dec :: "nat \<Rightarrow> string" where
  "dec n = (if n < 10 then [''0123456789'' ! n] else dec (n div 10) @ [''0123456789'' ! (n mod 10)])"

declare dec.simps [simp del]

definition plain_Itoa :: "int \<Rightarrow> string" where
  "plain_Itoa i = (if i < 0 then CHR ''-'' # dec (nat (- i)) else dec (nat i))"

definition clamp :: "int \<Rightarrow> int \<Rightarrow> int \<Rightarrow> int" where
  "clamp v low high = min (max v low) high"

definition plain_tb_Update :: "table_Model \<Rightarrow> Msg \<Rightarrow> table_Model \<times> nat option" where
  "plain_tb_Update t msg =
     (if \<not> tb_focus t then (t, None)
      else if msg = KeyMsg (KeyRunes ''j'')
      then (t\<lparr>tb_cursor := clamp (tb_cursor t + 1) 0 (int (length (tb_rows t)) - 1)\<rparr>, None)
      else if msg = KeyMsg (KeyRunes ''k'')
      then (t\<lparr>tb_cursor := clamp (tb_cursor t - 1) 0 (int (length (tb_rows t)) - 1)\<rparr>, None)
      else (t, None))"

definition plain_tb_SetRows :: "table_Model \<Rightarrow> table_Row list \<Rightarrow> table_Model" where
  "plain_tb_SetRows t r =
     t\<lparr>tb_rows := r,
       tb_cursor := (if tb_cursor t > int (length r) - 1 then int (length r) - 1
                     else tb_cursor t)\<rparr>"

definition plain_ta_Update :: "textarea_Model \<Rightarrow> Msg \<Rightarrow> textarea_Model \<times> nat option" where
  "plain_ta_Update t msg =
     (if \<not> ta_focus t then (t, None)
      else case msg of
             KeyMsg (KeyRunes s) \<Rightarrow> (t\<lparr>ta_value := ta_value t @ s\<rparr>, None)
           | _ \<Rightarrow> (t, None))"

definition plain :: lib where
  "plain =
     \<lparr>ta_Update = plain_ta_Update,
      tb_Update = plain_tb_Update,
      vp_Update = (\<lambda>v msg. (v, None)),
      sp_Update = (\<lambda>s msg. (s, None)),
      tb_SetRows = plain_tb_SetRows,
      ta_View = ta_value,
      tb_View = (\<lambda>t. concat (map concat (tb_rows t))),
      vp_View = vp_content,
      sp_View = (\<lambda>s. ''.''),
      glamour_Render = (\<lambda>s. s),
      hr_Render = (\<lambda>s. s),
      BorderStyle_Render = (\<lambda>s. ''['' @ s @ '']''),
      strconv_Atoi = plain_Atoi,
      strconv_Itoa = plain_Itoa\<rparr>"

text \<open>
  The result of section 8 of the spec: items 1 (\<open>A\<close>) and 2 (\<open>B\<close>); the second has a
  body and two answers.
\<close>

definition item_A :: ResponseItem where
  "item_A = \<lparr>QuestionID = 1, Title = ''A'', BodyMarkdown = [], Score = 0, ViewCount = 0,
              Answers = []\<rparr>"

definition item_B :: ResponseItem where
  "item_B = \<lparr>QuestionID = 2, Title = ''B'', BodyMarkdown = ''body'', Score = 0, ViewCount = 0,
              Answers = [\<lparr>ans_BodyMarkdown = ''b1''\<rparr>, \<lparr>ans_BodyMarkdown = ''b2''\<rparr>]\<rparr>"

definition resp_AB :: SEResponse where
  "resp_AB = \<lparr>Items = [item_A, item_B]\<rparr>"

text \<open>
  The session after the confirm key (\<open>m_pending\<close>), after the outcome \<open>resp_AB\<close>
  (\<open>m_list\<close>), with the cursor on the second row (\<open>m_selected\<close>), and with an error set
  (\<open>m_failed\<close>).
\<close>

definition m_pending :: Model where
  "m_pending = initialModel\<lparr>state := WaitingForResponse\<rparr>"

definition m_list :: Model where
  "m_list =
     m_pending\<lparr>response := resp_AB, state := DisplayingAllQuestions,
               table := (table initialModel)
                 \<lparr>tb_rows := [[''1'', ''A'', ''0'', ''0''], [''2'', ''B'', ''0'', ''0'']],
                  tb_focus := True\<rparr>,
               textarea := (textarea initialModel)\<lparr>ta_focus := False\<rparr>\<rparr>"

definition m_selected :: Model where
  "m_selected = m_list\<lparr>table := (table m_list)\<lparr>tb_cursor := 1\<rparr>\<rparr>"

definition m_failed :: Model where
  "m_failed = m_list\<lparr>err := Some ''timeout''\<rparr>"

text \<open>The session \<open>m_list\<close> after the window has been resized to 3 columns and 10 rows.\<close>

definition m_narrow :: Model where
  "m_narrow =
     (let m1 = m_list\<lparr>table := (table m_list)\<lparr>tb_height := 8, tb_width := - 1\<rparr>\<rparr>;
          m2 = SetTableHeaders m1
      in m2\<lparr>viewport := (viewport m2)\<lparr>vp_Height := 8, vp_Width := - 1\<rparr>,
            textarea := (textarea m2)\<lparr>ta_width := - 1\<rparr>\<rparr>)"

section \<open>Lemmas\<close>

subsection \<open>Rounding to single precision\<close>

lemma f32_round_small: "p < 2 ^ 24 \<Longrightarrow> f32_round p = p"
proof -
  assume "p < 2 ^ 24"
  then have "floorlog 2 p \<le> 24" by (simp add: floorlog_le_iff)
  then show ?thesis by (simp add: f32_round_def rne_def)
qed

lemma rne_arith:
  fixes q r H v :: nat
  assumes "r < 2 * H" "v = (if r < H \<or> (r = H \<and> even q) then q else q + 1)"
  shows "q * (2 * H) + r \<le> v * (2 * H) + H \<and> v * (2 * H) \<le> q * (2 * H) + r + H"
  using assms by (auto simp: algebra_simps)

lemma rne_bounds:
  assumes "1 \<le> s"
  shows "p \<le> rne p s * 2 ^ s + 2 ^ (s - 1)"
    and "rne p s * 2 ^ s \<le> p + 2 ^ (s - 1)"
proof -
  obtain t where s: "s = Suc t" using assms by (cases s) auto
  define q where "q = p div 2 ^ s"
  define r where "r = p mod 2 ^ s"
  define v where "v = rne p s"
  have p: "q * (2 * 2 ^ t) + r = p"
    unfolding q_def r_def s power_Suc by (rule div_mult_mod_eq)
  have r: "r < 2 * 2 ^ t" by (simp add: r_def s)
  have e: "v = (if r < 2 ^ t \<or> (r = 2 ^ t \<and> even q) then q else q + 1)"
    by (simp add: v_def rne_def q_def r_def s Let_def)
  have "q * (2 * 2 ^ t) + r \<le> v * (2 * 2 ^ t) + 2 ^ t \<and>
        v * (2 * 2 ^ t) \<le> q * (2 * 2 ^ t) + r + 2 ^ t"
    by (rule rne_arith[OF r e])
  then have "p \<le> v * 2 ^ s + 2 ^ (s - 1) \<and> v * 2 ^ s \<le> p + 2 ^ (s - 1)"
    unfolding p s by simp
  then show "p \<le> rne p s * 2 ^ s + 2 ^ (s - 1)" and "rne p s * 2 ^ s \<le> p + 2 ^ (s - 1)"
    by (simp_all add: v_def)
qed

lemma f32_round_shift:
  assumes "2 ^ 24 \<le> p"
  obtains s where "1 \<le> s" "f32_round p = rne p s * 2 ^ s" "2 ^ (s + 23) \<le> p" "p < 2 ^ (s + 24)"
proof -
  define L where "L = floorlog 2 p"
  have pos: "0 < p" using assms by (simp add: less_le_trans[of 0 "2^24"])
  have "Suc 24 \<le> L" unfolding L_def using assms by (intro floorlog_ge_SucI) auto
  then obtain s where L: "L = s + 24" and s: "1 \<le> s"
    by (metis Suc_eq_plus1 add.commute le_Suc_ex add_leD2 le_add1 add.assoc)
  have b: "2 ^ (L - 1) \<le> p \<and> p < 2 ^ L"
    unfolding L_def using floorlog_bounds[of p 2] pos by simp
  have "L - 1 = s + 23" using L by simp
  with b L have "2 ^ (s + 23) \<le> p" "p < 2 ^ (s + 24)" by (simp_all add: add.commute)
  moreover have "f32_round p = rne p s * 2 ^ s"
    using L by (simp add: f32_round_def L_def[symmetric])
  ultimately show thesis using that s by blast
qed

lemma f32_round_div:
  assumes big: "2 ^ 24 \<le> p"
    and fit: "p < 2 ^ (24 + k)"
    and lo: "a * 2 ^ k * 2 ^ 25 \<le> p * (2 ^ 25 + 1)"
    and hi: "p * (2 ^ 24 + 1) < (a + 1) * 2 ^ k * 2 ^ 24"
  shows "f32_round p div 2 ^ k = a"
proof -
  obtain s where s: "1 \<le> s" and fr: "f32_round p = rne p s * 2 ^ s"
    and pl: "2 ^ (s + 23) \<le> p" and pu: "p < 2 ^ (s + 24)"
    using f32_round_shift[OF big] by blast
  define h :: nat where "h = 2 ^ (s - 1)"
  define r where "r = f32_round p"
  have hs: "2 ^ s = 2 * h" using s by (cases s) (auto simp: h_def)
  have pl': "h * 2 ^ 24 \<le> p" using pl hs by (simp add: power_add)
  have pu': "p < h * 2 ^ 25" using pu hs by (simp add: power_add)
  have r1: "p \<le> r + h" and r2: "r \<le> p + h"
    using rne_bounds[OF s, of p] by (simp_all add: r_def fr h_def)
  have sk: "s \<le> k"
  proof (rule ccontr)
    assume "\<not> s \<le> k"
    then have "k + 24 \<le> s + 23" by simp
    then have "(2::nat) ^ (k + 24) \<le> 2 ^ (s + 23)" by (rule power_increasing) simp
    with pl fit show False by (simp add: add.commute)
  qed
  then obtain j where k: "k = s + j" using le_Suc_ex by blast
  obtain r' where r': "r = r' * (2 * h)" by (simp add: r_def fr hs[symmetric])
  have x: "a * 2 ^ k = (a * 2 ^ j) * (2 * h)" by (simp add: k power_add hs[symmetric])
  have up: "r < (a + 1) * 2 ^ k"
  proof -
    have "r * 2 ^ 24 \<le> p * 2 ^ 24 + h * 2 ^ 24" using r2 by simp
    also have "\<dots> \<le> p * (2 ^ 24 + 1)" using pl' by (simp add: algebra_simps)
    finally show ?thesis using hi by simp
  qed
  have low: "a * 2 ^ k \<le> r"
  proof -
    have "a * 2 ^ k * 2 ^ 25 < (p + h) * 2 ^ 25" using lo pu' by (simp add: algebra_simps)
    then have "a * 2 ^ k < p + h" by simp
    with r1 have "a * 2 ^ k < r + 2 * h" by simp
    then have "(a * 2 ^ j) * (2 * h) < (r' + 1) * (2 * h)" by (simp add: x r')
    then have "a * 2 ^ j < r' + 1" by (simp only: mult_less_cancel2)
    then have "(a * 2 ^ j) * (2 * h) \<le> r' * (2 * h)" by simp
    then show ?thesis by (simp only: x r')
  qed
  have kpos: "(0::nat) < 2 ^ k" by simp
  have "r div 2 ^ k = a"
    using low up 
    by (metis add.commute div_nat_eqI mult.commute plus_1_eq_Suc Suc_eq_plus1)
  then show ?thesis by (simp add: r_def)
qed

lemma f32_scale_neg: "f32_scale c k (- w) = - f32_scale c k w"
  by (simp add: f32_scale_def sgn_minus)

lemma f32_scale_nat:
  assumes "n < 2 ^ 24" "f32_round (c * n) div 2 ^ k = a"
  shows "f32_scale c k (int n) = int a"
  using assms by (cases "n = 0") (simp_all add: f32_scale_def f32_round_small)

lemma tenth_nat:
  assumes "n \<le> 1000000"
  shows "f32_round (13421773 * n) div 2 ^ 27 = n div 10"
proof (cases "n < 2")
  case True
  then have "13421773 * n < 2 ^ 24" by simp
  then have "f32_round (13421773 * n) = 13421773 * n" by (rule f32_round_small)
  with True show ?thesis by simp
next
  case False
  define a where "a = n div 10"
  have a: "10 * a \<le> n" "n < 10 * a + 10" by (simp_all add: a_def)
  have "f32_round (13421773 * n) div 2 ^ 27 = a"
  proof (rule f32_round_div)
    show "2 ^ 24 \<le> 13421773 * n" using False by simp
    show "13421773 * n < 2 ^ (24 + 27)" using assms by simp
    show "a * 2 ^ 27 * 2 ^ 25 \<le> 13421773 * n * (2 ^ 25 + 1)" using a by simp
    show "13421773 * n * (2 ^ 24 + 1) < (a + 1) * 2 ^ 27 * 2 ^ 24" using a assms by simp
  qed
  then show ?thesis by (simp add: a_def)
qed

lemma seven_tenths_nat:
  assumes "n \<le> 1000000"
  shows "f32_round (11744051 * n) div 2 ^ 24 = 7 * n div 10"
proof (cases "n < 2")
  case True
  then have "11744051 * n < 2 ^ 24" by simp
  then have "f32_round (11744051 * n) = 11744051 * n" by (rule f32_round_small)
  with True show ?thesis by simp
next
  case False
  define a where "a = 7 * n div 10"
  have a: "10 * a \<le> 7 * n" "7 * n < 10 * a + 10" by (simp_all add: a_def)
  have "f32_round (11744051 * n) div 2 ^ 24 = a"
  proof (rule f32_round_div)
    show "2 ^ 24 \<le> 11744051 * n" using False by simp
    show "11744051 * n < 2 ^ (24 + 24)" using assms by simp
    show "a * 2 ^ 24 * 2 ^ 25 \<le> 11744051 * n * (2 ^ 25 + 1)" using a by simp
    show "11744051 * n * (2 ^ 24 + 1) < (a + 1) * 2 ^ 24 * 2 ^ 24" using a assms by simp
  qed
  then show ?thesis by (simp add: a_def)
qed

lemma two_tenths_nat:
  assumes "n \<le> 1000000"
  shows "f32_round (13421773 * n) div 2 ^ 26 = 2 * n div 10"
proof (cases "n < 1")
  case True
  then show ?thesis by (simp add: f32_round_small)
next
  case False
  define a where "a = 2 * n div 10"
  have a: "10 * a \<le> 2 * n" "2 * n < 10 * a + 10" by (simp_all add: a_def)
  show ?thesis
  proof (cases "n = 1")
    case True
    then show ?thesis by (simp add: f32_round_small)
  next
    case n1: False
    have "f32_round (13421773 * n) div 2 ^ 26 = a"
    proof (rule f32_round_div)
      show "2 ^ 24 \<le> 13421773 * n" using False n1 by simp
      show "13421773 * n < 2 ^ (24 + 26)" using assms by simp
      show "a * 2 ^ 26 * 2 ^ 25 \<le> 13421773 * n * (2 ^ 25 + 1)" using a by simp
      show "13421773 * n * (2 ^ 24 + 1) < (a + 1) * 2 ^ 26 * 2 ^ 24" using a assms by simp
    qed
    then show ?thesis by (simp add: a_def)
  qed
qed

lemma tenth_exact: "0 \<le> w \<Longrightarrow> w \<le> 1000000 \<Longrightarrow> tenth w = w div 10"
  using f32_scale_nat[of "nat w" 13421773 27 "nat w div 10"] tenth_nat[of "nat w"]
  by (simp add: tenth_def zdiv_int)

lemma seven_tenths_exact: "0 \<le> w \<Longrightarrow> w \<le> 1000000 \<Longrightarrow> seven_tenths w = 7 * w div 10"
  using f32_scale_nat[of "nat w" 11744051 24 "7 * nat w div 10"] seven_tenths_nat[of "nat w"]
  by (simp add: seven_tenths_def zdiv_int)

lemma two_tenths_exact: "0 \<le> w \<Longrightarrow> w \<le> 1000000 \<Longrightarrow> two_tenths w = 2 * w div 10"
  using f32_scale_nat[of "nat w" 13421773 26 "2 * nat w div 10"] two_tenths_nat[of "nat w"]
  by (simp add: two_tenths_def zdiv_int)

subsection \<open>Widgets and commands\<close>

lemma widgets_fields [simp]:
  "state (widgets l m msg) = state m"
  "response (widgets l m msg) = response m"
  "err (widgets l m msg) = err m"
  "mouse (widgets l m msg) = mouse m"
  "textarea (widgets l m msg) = fst (ta_Update l (textarea m) msg)"
  "table (widgets l m msg) = fst (tb_Update l (table m) msg)"
  "viewport (widgets l m msg) = fst (vp_Update l (viewport m) msg)"
  "spinner (widgets l m msg) = fst (sp_Update l (spinner m) msg)"
  by (simp_all add: widgets_def)

lemma widgets_state_upd: "widgets l (m\<lparr>state := s\<rparr>) msg = (widgets l m msg)\<lparr>state := s\<rparr>"
  by (simp add: widgets_def)

lemma widgets_err_upd: "widgets l (m\<lparr>err := s\<rparr>) msg = (widgets l m msg)\<lparr>err := s\<rparr>"
  by (simp add: widgets_def)

lemma cmds_upd [simp]:
  "tiCmd l (m\<lparr>state := s\<rparr>) msg = tiCmd l m msg"
  "taCmd l (m\<lparr>state := s\<rparr>) msg = taCmd l m msg"
  "vpCmd l (m\<lparr>state := s\<rparr>) msg = vpCmd l m msg"
  "spCmd l (m\<lparr>state := s\<rparr>) msg = spCmd l m msg"
  "tiCmd l (m\<lparr>err := e\<rparr>) msg = tiCmd l m msg"
  "taCmd l (m\<lparr>err := e\<rparr>) msg = taCmd l m msg"
  "vpCmd l (m\<lparr>err := e\<rparr>) msg = vpCmd l m msg"
  "spCmd l (m\<lparr>err := e\<rparr>) msg = spCmd l m msg"
  by (simp_all add: tiCmd_def taCmd_def vpCmd_def spCmd_def)

lemma logs_of_cmd_of [simp]: "logs_of (cmd_of x) = []"
  by (cases x) simp_all

lemma logs_of_widget_cmds [simp]:
  "logs_of (tiCmd l m msg) = []" "logs_of (taCmd l m msg) = []"
  "logs_of (vpCmd l m msg) = []" "logs_of (spCmd l m msg) = []"
  by (simp_all add: tiCmd_def taCmd_def vpCmd_def spCmd_def)

subsection \<open>The branches of \<open>Update\<close>\<close>

lemma Update_SEResponse:
  "Update l m (SEResponseMsg r) =
    (let w = widgets l m (SEResponseMsg r) in
     if Items r = []
     then Inr (w\<lparr>state := WaitingForInput,
                 textarea := (textarea w)\<lparr>ta_focus := False, ta_value := []\<rparr>\<rparr>,
               Batch [tiCmd l m (SEResponseMsg r), taCmd l m (SEResponseMsg r),
                      vpCmd l m (SEResponseMsg r), spCmd l m (SEResponseMsg r),
                      getLogCmd ''No results found'' Warning],
               [])
     else Inr (w\<lparr>response := r,
                 state := DisplayingAllQuestions,
                 table := (tb_SetRows l (table w) (ToRows l r))\<lparr>tb_focus := True\<rparr>,
                 textarea := (textarea w)\<lparr>ta_focus := False\<rparr>\<rparr>,
               CmdNil, []))"
  by (simp add: Update_def Let_def)

lemma Update_errMsg:
  "Update l m (errMsg e) = Inr ((widgets l m (errMsg e))\<lparr>err := Some e\<rparr>, CmdNil, [])"
  by (simp add: Update_def)

lemma Update_logMsg:
  "Update l m (logMsg lg) =
     Inr (widgets l m (logMsg lg), CmdNil,
          if Msg lg = [] then [] else [GoSleepSend 3 (getLogCmd [] Info)])"
  by (simp add: Update_def)

lemma Update_fallthrough:
  "msg = CmdValue c \<or> msg = OtherMsg k \<or> msg = KeyMsg (KeyRunes s) \<or> msg = KeyMsg (KeyOther k) \<Longrightarrow>
   Update l m msg =
     Inr (widgets l m msg, Batch [tiCmd l m msg, taCmd l m msg, vpCmd l m msg, spCmd l m msg], [])"
  by (auto simp add: Update_def)

lemma Update_WindowSize:
  "Update l m (WindowSizeMsg w h) =
    (let m0 = widgets l m (WindowSizeMsg w h);
         m1 = m0\<lparr>table := (table m0)\<lparr>tb_height := h - 2, tb_width := w - 4\<rparr>\<rparr>;
         m2 = SetTableHeaders m1
     in Inr (m2\<lparr>viewport := (viewport m2)\<lparr>vp_Height := h - 2, vp_Width := w - 4\<rparr>,
                textarea := (textarea m2)\<lparr>ta_width := w - 4\<rparr>\<rparr>,
             Batch [tiCmd l m (WindowSizeMsg w h), taCmd l m (WindowSizeMsg w h),
                    vpCmd l m (WindowSizeMsg w h), spCmd l m (WindowSizeMsg w h)], []))"
  by (simp add: Update_def Let_def)

lemma Update_CtrlS:
  "Update l m (KeyMsg KeyCtrlS) =
     Inr ((widgets l m (KeyMsg KeyCtrlS))\<lparr>mouse := \<not> mouse m\<rparr>,
          Sequence (if mouse m
                    then [DisableMouse, getLogCmd ''Disabled mouse scroll/clicks'' Info]
                    else [EnableMouseCellMotion, getLogCmd ''Enabled mouse scroll/clicks'' Info]),
          [])"
  by (simp add: Update_def)

lemma Update_Quit:
  "k = KeyCtrlC \<or> k = KeyEsc \<Longrightarrow> Update l m (KeyMsg k) = Inr (widgets l m (KeyMsg k), Quit, [])"
  by (auto simp add: Update_def)

lemma Update_Backspace:
  "Update l m (KeyMsg KeyBackspace) =
    (let w = widgets l m (KeyMsg KeyBackspace) in
     if state m = DisplayingHelpScreen then Inr (w\<lparr>state := WaitingForInput\<rparr>, CmdNil, [])
     else if state m = DisplayingAllComments
     then Inr (w\<lparr>state := DisplayingQuestionAndAnswers\<rparr>, CmdNil, [])
     else if state m = DisplayingQuestionAndAnswers
     then Inr (w\<lparr>state := DisplayingAllQuestions, table := (table w)\<lparr>tb_focus := True\<rparr>\<rparr>,
               CmdNil, [])
     else if state m = DisplayingAllQuestions
     then Inr (w\<lparr>state := WaitingForInput, textarea := (textarea w)\<lparr>ta_focus := True\<rparr>\<rparr>,
               CmdNil, [])
     else Inr (w, Batch [tiCmd l m (KeyMsg KeyBackspace), taCmd l m (KeyMsg KeyBackspace),
                         vpCmd l m (KeyMsg KeyBackspace), spCmd l m (KeyMsg KeyBackspace)], []))"
  by (simp add: Update_def Let_def)

lemma Update_Enter:
  "Update l m (KeyMsg KeyEnter) =
    (let w = widgets l m (KeyMsg KeyEnter) in
     if state m = WaitingForInput
     then Inr (w\<lparr>state := WaitingForResponse\<rparr>,
               Batch [vpCmd l m (KeyMsg KeyEnter), spinner_Tick],
               [GoSearch (ta_value (textarea w))])
     else if state m = DisplayingAllQuestions
     then (case SelectedRow ((table w)\<lparr>tb_focus := False\<rparr>) of
             [] \<Rightarrow> Inl IndexOutOfRange
           | cell # cells \<Rightarrow>
               (case strings_Repeat ''-'' (vp_Width (viewport w)) of
                  Inl p \<Rightarrow> Inl p
                | Inr dashes \<Rightarrow>
                    Inr (w\<lparr>state := DisplayingQuestionAndAnswers,
                           table := (table w)\<lparr>tb_focus := False\<rparr>,
                           viewport := (viewport w)
                             \<lparr>vp_content :=
                                document l (hr_Render l dashes)
                                  (find_item (Items (response m)) (strconv_Atoi l cell)),
                              vp_YOffset := 0\<rparr>\<rparr>,
                         CmdNil, [])))
     else Inr (w, Batch [tiCmd l m (KeyMsg KeyEnter), taCmd l m (KeyMsg KeyEnter),
                         vpCmd l m (KeyMsg KeyEnter), spCmd l m (KeyMsg KeyEnter)], []))"
  by (simp add: Update_def Let_def split: list.splits sum.splits)

subsection \<open>The plain library and the example sessions\<close>

lemma plain_simps [simp]:
  "ta_Update plain = plain_ta_Update" "tb_Update plain = plain_tb_Update"
  "vp_Update plain = (\<lambda>v msg. (v, None))" "sp_Update plain = (\<lambda>s msg. (s, None))"
  "tb_SetRows plain = plain_tb_SetRows" "ta_View plain = ta_value"
  "tb_View plain = (\<lambda>t. concat (map concat (tb_rows t)))" "vp_View plain = vp_content"
  "glamour_Render plain = (\<lambda>s. s)" "hr_Render plain = (\<lambda>s. s)"
  "BorderStyle_Render plain = (\<lambda>s. ''['' @ s @ '']'')"
  "strconv_Atoi plain = plain_Atoi" "strconv_Itoa plain = plain_Itoa"
  by (simp_all add: plain_def)

lemma plain_Itoa_vals: "plain_Itoa 0 = ''0''" "plain_Itoa 1 = ''1''" "plain_Itoa 2 = ''2''"
  by (simp_all add: plain_Itoa_def dec.simps)

lemma plain_Atoi_vals: "plain_Atoi ''1'' = 1" "plain_Atoi ''2'' = 2"
  by (simp_all add: plain_Atoi_def digits_def)

lemma ToRows_AB: "ToRows plain resp_AB = [[''1'', ''A'', ''0'', ''0''], [''2'', ''B'', ''0'', ''0'']]"
  by (simp add: ToRows_def resp_AB_def item_A_def item_B_def plain_Itoa_vals)

lemma step_pending:
  "Update plain initialModel (KeyMsg KeyEnter) = Inr (m_pending, Batch [CmdNil, spinner_Tick], [GoSearch []])"
  by (simp add: Update_Enter m_pending_def initialModel_def SetTableHeaders_def widgets_def
      plain_ta_Update_def plain_tb_Update_def vpCmd_def Let_def)

lemma step_list:
  "Update plain m_pending (SEResponseMsg resp_AB) = Inr (m_list, CmdNil, [])"
  by (simp add: Update_SEResponse m_pending_def m_list_def initialModel_def SetTableHeaders_def widgets_def
      plain_ta_Update_def plain_tb_Update_def plain_tb_SetRows_def Let_def ToRows_AB)
    (simp add: resp_AB_def)

lemma initial_fields [simp]:
  "state initialModel = WaitingForInput" "response initialModel = \<lparr>Items = []\<rparr>"
  "err initialModel = None" "mouse initialModel = True"
  "textarea initialModel = \<lparr>ta_value = [], ta_focus = True, ta_width = 30\<rparr>"
  "viewport initialModel = \<lparr>vp_Width = 30, vp_Height = 3, vp_content = [], vp_YOffset = 0\<rparr>"
  "tb_rows (table initialModel) = []" "tb_cursor (table initialModel) = 0"
  "tb_focus (table initialModel) = False" "tb_width (table initialModel) = 30"
  by (simp_all add: initialModel_def SetTableHeaders_def)

lemma SelectedRow_focus [simp]: "SelectedRow (t\<lparr>tb_focus := b\<rparr>) = SelectedRow t"
  by (simp add: SelectedRow_def)

lemma find_item_found:
  "\<exists>it \<in> set items. QuestionID it = i \<Longrightarrow>
     find_item items i \<in> set items \<and> QuestionID (find_item items i) = i"
  by (induction items) auto

lemma find_item_missing:
  "\<forall>it \<in> set items. QuestionID it \<noteq> i \<Longrightarrow> find_item items i = ResponseItem_zero"
  by (induction items) auto


lemma reachable_m_list: "reachable plain m_list"
  using reachable.step[OF reachable.step[OF reachable.start step_pending] step_list] .

lemma loop_m_pending: "loop plain m_pending (Suc 0)"
  using loop.event[OF loop.boot _ step_pending] by simp

subsection \<open>One step: state, result and table\<close>

lemma Update_state_cases:
  assumes "Update l m msg = Inr (m', c, g)"
  shows "(msg = KeyMsg KeyEnter \<and> state m = WaitingForInput \<and> state m' = WaitingForResponse
            \<and> response m' = response m \<and> searches g = [ta_value (textarea (widgets l m msg))])
       \<or> (searches g = [] \<and>
           ((\<exists>r. msg = SEResponseMsg r \<and> response m' = (if Items r = [] then response m else r) \<and>
                 state m' = (if Items r = [] then WaitingForInput else DisplayingAllQuestions))
          \<or> ((\<forall>r. msg \<noteq> SEResponseMsg r) \<and> response m' = response m \<and>
              (state m' = state m
               \<or> msg = KeyMsg KeyBackspace \<and>
                   (state m = DisplayingHelpScreen \<and> state m' = WaitingForInput
                  \<or> state m = DisplayingAllComments \<and> state m' = DisplayingQuestionAndAnswers
                  \<or> state m = DisplayingQuestionAndAnswers \<and> state m' = DisplayingAllQuestions
                  \<or> state m = DisplayingAllQuestions \<and> state m' = WaitingForInput)
               \<or> msg = KeyMsg KeyEnter \<and> state m = DisplayingAllQuestions
                   \<and> state m' = DisplayingQuestionAndAnswers))))"
proof (cases msg)
  case (WindowSizeMsg w h)
  with assms show ?thesis by (auto simp: Update_WindowSize Let_def SetTableHeaders_def)
next
  case (KeyMsg k)
  show ?thesis
  proof (cases k)
    case KeyCtrlS with assms KeyMsg show ?thesis by (auto simp: Update_CtrlS)
  next
    case KeyCtrlC with assms KeyMsg show ?thesis by (auto simp: Update_Quit)
  next
    case KeyEsc with assms KeyMsg show ?thesis by (auto simp: Update_Quit)
  next
    case KeyBackspace with assms KeyMsg show ?thesis
      by (auto simp: Update_Backspace Let_def split: if_splits)
  next
    case KeyEnter with assms KeyMsg show ?thesis
      by (auto simp: Update_Enter Let_def split: if_splits list.splits sum.splits)
  next
    case (KeyRunes s) with assms KeyMsg show ?thesis by (auto simp: Update_fallthrough)
  next
    case (KeyOther n) with assms KeyMsg show ?thesis by (auto simp: Update_fallthrough)
  qed
next
  case (SEResponseMsg r)
  with assms show ?thesis by (auto simp: Update_SEResponse Let_def split: if_splits)
next
  case (logMsg lg)
  with assms show ?thesis by (auto simp: Update_logMsg)
next
  case (errMsg e)
  with assms show ?thesis by (auto simp: Update_errMsg)
next
  case (CmdValue c)
  with assms show ?thesis by (auto simp: Update_fallthrough)
next
  case (OtherMsg k)
  with assms show ?thesis by (auto simp: Update_fallthrough)
qed

subsection \<open>Invariants of the event loop\<close>

lemma loop_inflight: "loop l m n \<Longrightarrow> n = (if state m = WaitingForResponse then 1 else 0)"
proof (induction rule: loop.induct)
  case boot
  show ?case by (simp add: initialModel_def SetTableHeaders_def)
next
  case (event m n msg m' c g)
  from Update_state_cases[OF event.hyps(3)] event.hyps(2) event.IH
  show ?case by (auto split: if_splits)
next
  case (outcome m n r m' c g)
  from Update_state_cases[OF outcome.hyps(2)] outcome.IH
  show ?case by (auto split: if_splits)
qed

lemma loop_reachable: "loop l m n \<Longrightarrow> reachable l m"
  by (induction rule: loop.induct) (auto intro: reachable.intros)




lemma cursor_ok_focus [simp]: "cursor_ok (t\<lparr>tb_focus := b\<rparr>) = cursor_ok t"
  by (simp add: cursor_ok_def)



subsection \<open>Selection, the error field and the column widths\<close>




lemma SetTableHeaders_err: "SetTableHeaders (m\<lparr>err := x\<rparr>) = (SetTableHeaders m)\<lparr>err := x\<rparr>"
  by (simp add: SetTableHeaders_def Let_def)

lemma Update_err_ignored:
  assumes "\<forall>e. msg \<noteq> errMsg e"
  shows "Update l (m\<lparr>err := x\<rparr>) msg = with_err x (Update l m msg)"
proof (cases msg)
  case (WindowSizeMsg w h)
  then show ?thesis
    by (simp add: Update_WindowSize Let_def with_err_def widgets_err_upd SetTableHeaders_def)
next
  case (KeyMsg k)
  show ?thesis
  proof (cases k)
    case KeyCtrlS with KeyMsg show ?thesis
      by (simp add: Update_CtrlS with_err_def widgets_err_upd)
  next
    case KeyCtrlC with KeyMsg show ?thesis
      by (simp add: Update_Quit with_err_def widgets_err_upd)
  next
    case KeyEsc with KeyMsg show ?thesis
      by (simp add: Update_Quit with_err_def widgets_err_upd)
  next
    case KeyBackspace with KeyMsg show ?thesis
      by (simp add: Update_Backspace Let_def with_err_def widgets_err_upd)
  next
    case KeyEnter with KeyMsg show ?thesis
      by (simp add: Update_Enter Let_def with_err_def widgets_err_upd
          split: list.splits sum.splits)
  next
    case (KeyRunes s) with KeyMsg show ?thesis
      by (simp add: Update_fallthrough with_err_def widgets_err_upd)
  next
    case (KeyOther n) with KeyMsg show ?thesis
      by (simp add: Update_fallthrough with_err_def widgets_err_upd)
  qed
next
  case (SEResponseMsg r)
  then show ?thesis
    by (simp add: Update_SEResponse Let_def with_err_def widgets_err_upd)
next
  case (logMsg lg)
  then show ?thesis by (simp add: Update_logMsg with_err_def widgets_err_upd)
next
  case (errMsg e)
  with assms show ?thesis by simp
next
  case (CmdValue c)
  then show ?thesis by (simp add: Update_fallthrough with_err_def widgets_err_upd)
next
  case (OtherMsg k)
  then show ?thesis by (simp add: Update_fallthrough with_err_def widgets_err_upd)
qed

lemma Update_err_latched:
  assumes "Update l m msg = Inr (m', c, g)" "err m \<noteq> None"
  shows "err m' \<noteq> None"
proof (cases "\<exists>e. msg = errMsg e")
  case True
  with assms show ?thesis by (auto simp: Update_errMsg)
next
  case False
  then have n: "\<forall>e. msg \<noteq> errMsg e" by simp
  have "m\<lparr>err := err m\<rparr> = m" by simp
  then have "Update l m msg = with_err (err m) (Update l m msg)"
    using Update_err_ignored[OF n, where l = l and m = m and x = "err m"] by simp
  with assms have "m' = m'\<lparr>err := err m\<rparr>" by (simp add: with_err_def)
  then have "err m' = err (m'\<lparr>err := err m\<rparr>)" by (rule arg_cong)
  with assms show ?thesis by simp
qed

lemma widths_at_minus_four:
  "tenth (- 4) = 0" "seven_tenths (- 4) = - 2" "two_tenths (- 4) = 0"
  by (simp_all add: tenth_def seven_tenths_def two_tenths_def f32_scale_def f32_round_def
      rne_def compute_floorlog)

lemma trunc_widths:
  assumes "\<bar>w\<bar> \<le> 1000000"
  shows "tenth w = sgn w * (\<bar>w\<bar> div 10)"
    and "seven_tenths w = sgn w * (7 * \<bar>w\<bar> div 10)"
    and "two_tenths w = sgn w * (2 * \<bar>w\<bar> div 10)"
proof -
  show "tenth w = sgn w * (\<bar>w\<bar> div 10)"
  proof (cases "0 \<le> w")
    case True
    with assms have "tenth w = w div 10" by (intro tenth_exact) simp_all
    with True show ?thesis by (cases "w = 0") simp_all
  next
    case False
    with assms have e: "tenth (- w) = (- w) div 10"
      by (intro tenth_exact) simp_all
    have "tenth w = - tenth (- w)"
      using f32_scale_neg[of 13421773 27 "- w"] by (simp add: tenth_def)
    also have "\<dots> = - ((- w) div 10)" by (simp only: e)
    finally show ?thesis using False by simp
  qed
  show "seven_tenths w = sgn w * (7 * \<bar>w\<bar> div 10)"
  proof (cases "0 \<le> w")
    case True
    with assms have "seven_tenths w = 7 * w div 10" by (intro seven_tenths_exact) simp_all
    with True show ?thesis by (cases "w = 0") simp_all
  next
    case False
    with assms have e: "seven_tenths (- w) = 7 * (- w) div 10"
      by (intro seven_tenths_exact) simp_all
    have "seven_tenths w = - seven_tenths (- w)"
      using f32_scale_neg[of 11744051 24 "- w"] by (simp add: seven_tenths_def)
    also have "\<dots> = - (7 * (- w) div 10)" by (simp only: e)
    finally show ?thesis using False by simp
  qed
  show "two_tenths w = sgn w * (2 * \<bar>w\<bar> div 10)"
  proof (cases "0 \<le> w")
    case True
    with assms have "two_tenths w = 2 * w div 10" by (intro two_tenths_exact) simp_all
    with True show ?thesis by (cases "w = 0") simp_all
  next
    case False
    with assms have e: "two_tenths (- w) = 2 * (- w) div 10"
      by (intro two_tenths_exact) simp_all
    have "two_tenths w = - two_tenths (- w)"
      using f32_scale_neg[of 13421773 26 "- w"] by (simp add: two_tenths_def)
    also have "\<dots> = - (2 * (- w) div 10)" by (simp only: e)
    finally show ?thesis using False by simp
  qed
qed

lemma fifth: "(2 * w - 8) div 10 = (w - 4) div (5::int)"
  by presburger

subsection \<open>The back key, and the confirm key on a selected row\<close>

text \<open>
  With a row selected and a viewport that is not of negative width, the confirm key leads
  from \<open>DisplayingAllQuestions\<close> to \<open>DisplayingQuestionAndAnswers\<close>, and the document is
  the rendered title and body of the resolved item, the rule, the heading of the answers
  and the answers in their order, each in its border.
\<close>

lemma step_narrow:
  "Update plain m_list (WindowSizeMsg 3 10) =
     Inr (m_narrow, Batch [CmdNil, CmdNil, CmdNil, CmdNil], [])"
  by (simp add: Update_WindowSize Let_def m_narrow_def m_list_def m_pending_def widgets_def
      plain_ta_Update_def plain_tb_Update_def tiCmd_def taCmd_def vpCmd_def spCmd_def
      SetTableHeaders_def)

lemma reachable_m_narrow: "reachable plain m_narrow"
  using reachable.step[OF reachable_m_list step_narrow] .


lemma confirm_resolves_selected_row:
  assumes "state m = DisplayingAllQuestions"
    and "SelectedRow (fst (tb_Update l (table m) (KeyMsg KeyEnter))) = cell # cells"
    and "0 \<le> vp_Width (fst (vp_Update l (viewport m) (KeyMsg KeyEnter)))"
  shows "\<exists>m' item.
           Update l m (KeyMsg KeyEnter) = Inr (m', CmdNil, []) \<and>
           state m' = DisplayingQuestionAndAnswers \<and>
           vp_content (viewport m') =
             glamour_Render l (''# '' @ Title item @ [CHR 0x0A, CHR 0x0A] @ BodyMarkdown item) @
             hr_Render l
               (replicate (nat (vp_Width (fst (vp_Update l (viewport m) (KeyMsg KeyEnter)))))
                  CHR ''-'') @
             foldl (\<lambda>acc answer.
                      acc @ BorderStyle_Render l
                              (glamour_Render l (ans_BodyMarkdown answer) @ [CHR 0x0A, CHR 0x0A]))
                   (glamour_Render l
                      ([CHR 0x0A, CHR 0x0A, CHR 0x0A, CHR 0x0A] @ ''# Answers:'' @
                       [CHR 0x0A, CHR 0x0A]))
                   (Answers item) \<and>
           vp_YOffset (viewport m') = 0 \<and>
           item = find_item (Items (response m)) (strconv_Atoi l cell) \<and>
           (if \<exists>it \<in> set (Items (response m)). QuestionID it = strconv_Atoi l cell
            then item \<in> set (Items (response m)) \<and> QuestionID item = strconv_Atoi l cell
            else item = ResponseItem_zero)"
proof -
  have f: "if \<exists>it \<in> set (Items (response m)). QuestionID it = strconv_Atoi l cell
           then find_item (Items (response m)) (strconv_Atoi l cell) \<in> set (Items (response m)) \<and>
                QuestionID (find_item (Items (response m)) (strconv_Atoi l cell)) =
                  strconv_Atoi l cell
           else find_item (Items (response m)) (strconv_Atoi l cell) = ResponseItem_zero"
    using find_item_found[of "Items (response m)" "strconv_Atoi l cell"]
      find_item_missing[of "Items (response m)" "strconv_Atoi l cell"]
    by auto
  have u: "Update l m (KeyMsg KeyEnter) =
     Inr ((widgets l m (KeyMsg KeyEnter))
            \<lparr>state := DisplayingQuestionAndAnswers,
             table := (table (widgets l m (KeyMsg KeyEnter)))\<lparr>tb_focus := False\<rparr>,
             viewport := (viewport (widgets l m (KeyMsg KeyEnter)))
               \<lparr>vp_content :=
                  document l
                    (hr_Render l
                       (replicate (nat (vp_Width (fst (vp_Update l (viewport m) (KeyMsg KeyEnter)))))
                          CHR ''-''))
                    (find_item (Items (response m)) (strconv_Atoi l cell)),
                vp_YOffset := 0\<rparr>\<rparr>,
          CmdNil, [])"
    using assms by (simp add: Update_Enter Let_def strings_Repeat_def)
  show ?thesis
    unfolding u using f by (simp add: document_def Let_def)
qed

lemma confirm_on_second_row:
  "\<exists>m'. Update plain m_selected (KeyMsg KeyEnter) = Inr (m', CmdNil, []) \<and>
      state m' = DisplayingQuestionAndAnswers \<and>
      vp_content (viewport m') =
        ''# B'' @ [CHR 0x0A, CHR 0x0A] @ ''body'' @ replicate 30 CHR ''-'' @
        [CHR 0x0A, CHR 0x0A, CHR 0x0A, CHR 0x0A] @ ''# Answers:'' @ [CHR 0x0A, CHR 0x0A] @
        ''[b1'' @ [CHR 0x0A, CHR 0x0A] @ '']'' @ ''[b2'' @ [CHR 0x0A, CHR 0x0A] @ '']''"
proof -
  have s: "state m_selected = DisplayingAllQuestions"
    by (simp add: m_selected_def m_list_def)
  have r: "SelectedRow (fst (tb_Update plain (table m_selected) (KeyMsg KeyEnter))) =
             ''2'' # [''B'', ''0'', ''0'']"
    by (simp add: m_selected_def m_list_def plain_tb_Update_def SelectedRow_def)
  have v: "vp_Width (fst (vp_Update plain (viewport m_selected) (KeyMsg KeyEnter))) = 30"
    by (simp add: m_selected_def m_list_def m_pending_def)
  then have w: "0 \<le> vp_Width (fst (vp_Update plain (viewport m_selected) (KeyMsg KeyEnter)))"
    by simp
  have a: "strconv_Atoi plain ''2'' = 2" by (simp add: plain_Atoi_vals)
  have i: "find_item (Items (response m_selected)) 2 = item_B"
    by (simp add: m_selected_def m_list_def resp_AB_def item_A_def item_B_def)
  have b: "Title item_B = ''B''" "BodyMarkdown item_B = ''body''"
    "Answers item_B = [\<lparr>ans_BodyMarkdown = ''b1''\<rparr>, \<lparr>ans_BodyMarkdown = ''b2''\<rparr>]"
    by (simp_all add: item_B_def)
  from confirm_resolves_selected_row[OF s r w] a i v b show ?thesis by auto
qed

section \<open>The claims\<close>

text \<open>
  Claim C5.  A search outcome with no items, processed while the state is
  \<open>WaitingForResponse\<close>, leads to \<open>WaitingForInput\<close>, and the command that \<open>Update\<close>
  returns delivers exactly one notification: the warning ``No results found''.
\<close>

theorem empty_outcome_warns:
  assumes "state m = WaitingForResponse" and "Items r = []"
  shows "state_of (Update l m (SEResponseMsg r)) = Some WaitingForInput \<and>
         logs_of (command_of (Update l m (SEResponseMsg r))) =
           [\<lparr>Msg = ''No results found'', Type = Warning\<rparr>]"
  using assms by (simp add: Update_SEResponse Let_def state_of_def model_of_def command_of_def)

theorem empty_outcome_warns_witness:
  "state m_pending = WaitingForResponse \<and> Items \<lparr>Items = []\<rparr> = [] \<and>
   state_of (Update plain m_pending (SEResponseMsg \<lparr>Items = []\<rparr>)) = Some WaitingForInput \<and>
   logs_of (command_of (Update plain m_pending (SEResponseMsg \<lparr>Items = []\<rparr>))) =
     [\<lparr>Msg = ''No results found'', Type = Warning\<rparr>]"
proof -
  have s: "state m_pending = WaitingForResponse" by (simp add: m_pending_def)
  have e: "Items \<lparr>Items = []\<rparr> = []" by simp
  show ?thesis using s e empty_outcome_warns[OF s e, of plain] by simp
qed

text \<open>
  Claim C9.  When the error field is set, \<open>View\<close> returns the text of the error, whatever
  the state and the widgets are.  \<open>View\<close> has a value receiver and returns a string only:
  it is a function of the session and has no session to return.
\<close>

theorem error_overrides_view: "err m = Some e \<Longrightarrow> View l m = e"
  by (simp add: View_def)

theorem error_overrides_view_witness:
  "err m_failed = Some ''timeout'' \<and> state m_failed = DisplayingAllQuestions \<and>
   View plain m_failed = ''timeout'' \<and> View plain m_list = ''1A002B00''"
proof -
  have e: "err m_failed = Some ''timeout''" by (simp add: m_failed_def)
  have s: "state m_failed = DisplayingAllQuestions" by (simp add: m_failed_def m_list_def)
  have v: "View plain m_list = ''1A002B00''"
    by (simp add: View_def m_list_def m_pending_def)
  show ?thesis using e s v error_overrides_view[OF e, of plain] by simp
qed




text \<open>
  Claim C1.  As stated the claim fails: \<open>Update\<close> applies a search outcome in every state.
  In \<open>DisplayingAllQuestions\<close>, a non-empty outcome replaces the stored result and an
  empty one leads to \<open>WaitingForInput\<close> with the warning.
\<close>

theorem late_outcome_counterexample:
  "state m_list \<noteq> WaitingForResponse \<and>
   state_of (Update plain m_list (SEResponseMsg \<lparr>Items = [item_B]\<rparr>)) = Some DisplayingAllQuestions \<and>
   map_option response (model_of (Update plain m_list (SEResponseMsg \<lparr>Items = [item_B]\<rparr>))) =
     Some \<lparr>Items = [item_B]\<rparr> \<and>
   response m_list \<noteq> \<lparr>Items = [item_B]\<rparr> \<and>
   state_of (Update plain m_list (SEResponseMsg \<lparr>Items = []\<rparr>)) = Some WaitingForInput \<and>
   logs_of (command_of (Update plain m_list (SEResponseMsg \<lparr>Items = []\<rparr>))) =
     [\<lparr>Msg = ''No results found'', Type = Warning\<rparr>]"
  by (simp add: Update_SEResponse Let_def state_of_def model_of_def command_of_def)
     (simp add: m_list_def resp_AB_def)

text \<open>
  Claim C1, amended.  The branch for a search outcome does not read the state: the step is
  the same from every state, an empty outcome leads to \<open>WaitingForInput\<close> and emits the
  warning, a non-empty one is stored and leads to \<open>DisplayingAllQuestions\<close>.  In the event
  loop an outcome arrives only while a search is in flight, and then the state is
  \<open>WaitingForResponse\<close>.
\<close>

theorem outcome_applied_in_every_state:
  "Update l (m\<lparr>state := s\<rparr>) (SEResponseMsg r) = Update l m (SEResponseMsg r) \<and>
   state_of (Update l m (SEResponseMsg r)) =
     Some (if Items r = [] then WaitingForInput else DisplayingAllQuestions) \<and>
   map_option response (model_of (Update l m (SEResponseMsg r))) =
     Some (if Items r = [] then response m else r) \<and>
   logs_of (command_of (Update l m (SEResponseMsg r))) =
     (if Items r = [] then [\<lparr>Msg = ''No results found'', Type = Warning\<rparr>] else []) \<and>
   (loop l m (Suc n) \<longrightarrow> state m = WaitingForResponse)"
proof -
  have "loop l m (Suc n) \<longrightarrow> state m = WaitingForResponse"
    using loop_inflight[of l m "Suc n"] by (auto split: if_splits)
  then show ?thesis
    by (simp add: Update_SEResponse Let_def state_of_def model_of_def command_of_def
        widgets_state_upd)
qed

theorem outcome_applied_in_every_state_witness:
  "loop plain m_pending (Suc 0) \<and> state m_pending = WaitingForResponse \<and>
   Update plain (m_pending\<lparr>state := DisplayingHelpScreen\<rparr>) (SEResponseMsg resp_AB) =
     Inr (m_list, CmdNil, [])"
  using outcome_applied_in_every_state[where l = plain and m = m_pending
      and s = DisplayingHelpScreen and r = resp_AB and n = 0]
    loop_m_pending step_list
  by simp

text \<open>
  Claim C2.  As stated the claim fails: the confirm key in \<open>WaitingForInput\<close> starts a
  search also when the input is empty.
\<close>

theorem empty_query_counterexample:
  "state initialModel = WaitingForInput \<and> ta_value (textarea initialModel) = [] \<and>
   searches (started (Update plain initialModel (KeyMsg KeyEnter))) = [[]]"
  by (simp add: step_pending started_def)

text \<open>
  Claim C2, amended.  The confirm key starts a search exactly when the state is
  \<open>WaitingForInput\<close>, with the text of the input whatever it is; no other message starts
  one; and the event loop never has more than one search in flight.
\<close>

theorem search_dispatch:
  "searches (started (Update l m (KeyMsg KeyEnter))) =
     (if state m = WaitingForInput
      then [ta_value (fst (ta_Update l (textarea m) (KeyMsg KeyEnter)))] else []) \<and>
   (msg \<noteq> KeyMsg KeyEnter \<longrightarrow> searches (started (Update l m msg)) = []) \<and>
   (loop l m' n \<longrightarrow> n \<le> 1)"
proof -
  have a: "searches (started (Update l m (KeyMsg KeyEnter))) =
     (if state m = WaitingForInput
      then [ta_value (fst (ta_Update l (textarea m) (KeyMsg KeyEnter)))] else [])"
    by (simp add: Update_Enter Let_def started_def split: list.splits sum.splits)
  have b: "msg \<noteq> KeyMsg KeyEnter \<longrightarrow> searches (started (Update l m msg)) = []"
  proof (cases "Update l m msg")
    case (Inl p)
    then show ?thesis by (simp add: started_def)
  next
    case (Inr x)
    obtain m1 c g where x: "x = (m1, c, g)" by (cases x) auto
    from Update_state_cases[of l m msg m1 c g] Inr x
    show ?thesis by (auto simp: started_def)
  qed
  have c: "loop l m' n \<longrightarrow> n \<le> 1"
    using loop_inflight[of l m' n] by (auto split: if_splits)
  from a b c show ?thesis by blast
qed

theorem search_dispatch_witness:
  "loop plain m_pending (Suc 0) \<and> Suc 0 \<le> 1 \<and>
   searches (started (Update plain m_pending (KeyMsg KeyEnter))) = [] \<and>
   KeyMsg KeyBackspace \<noteq> KeyMsg KeyEnter \<and>
   searches (started (Update plain m_pending (KeyMsg KeyBackspace))) = []"
  using search_dispatch[where l = plain and m = m_pending and msg = "KeyMsg KeyBackspace"
      and m' = m_pending and n = "Suc 0"]
    loop_m_pending
  by (simp add: m_pending_def)

text \<open>
  Claim C6.  The confirm key in \<open>DisplayingAllQuestions\<close> does not always lead to the detail
  view: after a resize to a window of 3 columns the viewport width is \<open>-1\<close>, and the
  confirm key on the selected first row panics in \<open>strings.Repeat\<close> before any document is
  built.  The session is reachable: confirm, outcome \<open>resp_AB\<close>, resize.
\<close>

theorem narrow_window_confirm_panics:
  "reachable plain m_narrow \<and> state m_narrow = DisplayingAllQuestions \<and>
   SelectedRow (fst (tb_Update plain (table m_narrow) (KeyMsg KeyEnter))) =
     [''1'', ''A'', ''0'', ''0''] \<and>
   vp_Width (viewport m_narrow) = - 1 \<and>
   Update plain m_narrow (KeyMsg KeyEnter) = Inl NegativeRepeatCount"
proof -
  have s: "state m_narrow = DisplayingAllQuestions"
    by (simp add: m_narrow_def m_list_def Let_def SetTableHeaders_def)
  have r: "SelectedRow (fst (tb_Update plain (table m_narrow) (KeyMsg KeyEnter))) =
             [''1'', ''A'', ''0'', ''0'']"
    by (simp add: m_narrow_def m_list_def m_pending_def Let_def SetTableHeaders_def
        plain_tb_Update_def SelectedRow_def)
  have v: "vp_Width (viewport m_narrow) = - 1"
    by (simp add: m_narrow_def Let_def SetTableHeaders_def)
  have u: "Update plain m_narrow (KeyMsg KeyEnter) = Inl NegativeRepeatCount"
    using s r v by (simp add: Update_Enter Let_def strings_Repeat_def)
  from reachable_m_narrow s r v u show ?thesis by simp
qed

text \<open>
  Claim C8.  As stated the claim fails: with the error field set, the back key still leads
  from \<open>DisplayingAllQuestions\<close> to \<open>WaitingForInput\<close>.
\<close>

theorem latched_error_counterexample:
  "err m_failed \<noteq> None \<and> state m_failed = DisplayingAllQuestions \<and>
   state_of (Update plain m_failed (KeyMsg KeyBackspace)) = Some WaitingForInput"
  by (simp add: Update_Backspace Let_def state_of_def model_of_def)
     (simp add: m_failed_def m_list_def)

text \<open>
  Claim C8, amended.  \<open>Update\<close> never reads the error field: a message other than an
  error is processed exactly as without the error, which is carried along; and a step
  from a session with the error set leads to a session with the error set.
\<close>

theorem error_latched_not_consulted:
  "((\<forall>e. msg \<noteq> errMsg e) \<longrightarrow> Update l (m\<lparr>err := x\<rparr>) msg = with_err x (Update l m msg)) \<and>
   (err m \<noteq> None \<and> Update l m msg = Inr (m', c, g) \<longrightarrow> err m' \<noteq> None)"
  using Update_err_ignored[where msg = msg and l = l and m = m and x = x]
    Update_err_latched[where l = l and m = m and msg = msg and m' = m' and c = c and g = g]
  by auto

theorem error_latched_not_consulted_witness:
  "(\<forall>e. KeyMsg KeyBackspace \<noteq> errMsg e) \<and>
   err m_failed \<noteq> None \<and>
   Update plain m_failed (KeyMsg KeyBackspace) =
     Inr (m_failed\<lparr>state := WaitingForInput,
                    textarea := (textarea m_failed)\<lparr>ta_focus := True\<rparr>\<rparr>, CmdNil, []) \<and>
   Update plain (m_failed\<lparr>err := None\<rparr>) (KeyMsg KeyBackspace) =
     with_err None (Update plain m_failed (KeyMsg KeyBackspace)) \<and>
   err (m_failed\<lparr>state := WaitingForInput,
                 textarea := (textarea m_failed)\<lparr>ta_focus := True\<rparr>\<rparr>) \<noteq> None"
proof -
  have n: "\<forall>e. KeyMsg KeyBackspace \<noteq> errMsg e" by simp
  have e: "err m_failed \<noteq> None" by (simp add: m_failed_def)
  have u: "Update plain m_failed (KeyMsg KeyBackspace) =
     Inr (m_failed\<lparr>state := WaitingForInput,
                    textarea := (textarea m_failed)\<lparr>ta_focus := True\<rparr>\<rparr>, CmdNil, [])"
    by (simp add: Update_Backspace Let_def m_failed_def m_list_def m_pending_def widgets_def
        plain_ta_Update_def plain_tb_Update_def)
  from error_latched_not_consulted[where msg = "KeyMsg KeyBackspace" and l = plain
      and m = m_failed and x = None
      and m' = "m_failed\<lparr>state := WaitingForInput,
                          textarea := (textarea m_failed)\<lparr>ta_focus := True\<rparr>\<rparr>"
      and c = CmdNil and g = "[]"] n e u
  show ?thesis by simp
qed



text \<open>
  Claim C7.  As stated the claim fails: for a window narrower than the margin the table
  width is negative, and the conversion to \<open>int\<close> truncates toward zero where the floor
  rounds down.
\<close>

theorem negative_width_counterexample:
  "table_width (Update plain initialModel (WindowSizeMsg 0 0)) = - 4 \<and>
   column_widths (Update plain initialModel (WindowSizeMsg 0 0)) = [0, - 2, 0, 0] \<and>
   column_widths (Update plain initialModel (WindowSizeMsg 0 0)) \<noteq>
     [(- 4) div 10, 7 * (- 4) div 10, (- 4) div 10, 2 * (- 4) div 10]"
  by (simp add: Update_WindowSize Let_def SetTableHeaders_def column_widths_def table_width_def
      widths_at_minus_four)

text \<open>
  Claim C7, amended.  For a window of width \<open>w\<close> with \<open>|w - 4|\<close> at most 1000000, the
  table width becomes \<open>w - 4\<close> and the columns \<open>ID\<close>, \<open>Title\<close>, \<open>Score\<close>, \<open>Views\<close> get
  one, seven, one and two tenths of it, truncated toward zero; from width 4 on these are
  the floors.
\<close>

theorem resize_column_widths:
  assumes "\<bar>w - 4\<bar> \<le> 1000000"
  shows "table_width (Update l m (WindowSizeMsg w h)) = w - 4 \<and>
         map_option (tb_cols \<circ> table) (model_of (Update l m (WindowSizeMsg w h))) =
           Some [\<lparr>col_Title = ''ID'', col_Width = sgn (w - 4) * (\<bar>w - 4\<bar> div 10)\<rparr>,
                 \<lparr>col_Title = ''Title'', col_Width = sgn (w - 4) * (7 * \<bar>w - 4\<bar> div 10)\<rparr>,
                 \<lparr>col_Title = ''Score'', col_Width = sgn (w - 4) * (\<bar>w - 4\<bar> div 10)\<rparr>,
                 \<lparr>col_Title = ''Views'', col_Width = sgn (w - 4) * (2 * \<bar>w - 4\<bar> div 10)\<rparr>] \<and>
         (4 \<le> w \<longrightarrow>
            column_widths (Update l m (WindowSizeMsg w h)) =
              [(w - 4) div 10, 7 * (w - 4) div 10, (w - 4) div 10, 2 * (w - 4) div 10])"
  using trunc_widths[OF assms]
  by (simp add: Update_WindowSize Let_def SetTableHeaders_def column_widths_def table_width_def
      model_of_def sgn_if fifth)

theorem resize_column_widths_witness:
  "\<bar>(84::int) - 4\<bar> \<le> 1000000 \<and> (4::int) \<le> 84 \<and>
   table_width (Update plain initialModel (WindowSizeMsg 84 24)) = 80 \<and>
   column_widths (Update plain initialModel (WindowSizeMsg 84 24)) = [8, 56, 8, 16]"
  using resize_column_widths[where w = 84 and l = plain and m = initialModel and h = 24]
  by simp

text \<open>
  Claim C3.  As stated the claim fails: the session holds no notification.  Two different
  notifications start the same timer, with the same event to send; the session after a
  notification is the session before it, and so is the session after the timer has fired:
  nothing was there to clear.
\<close>

theorem timer_fire_counterexample:
  "started (Update plain m_pending (logMsg \<lparr>Msg = ''No results found'', Type = Warning\<rparr>)) =
     [GoSleepSend 3 (getLogCmd [] Info)] \<and>
   started (Update plain m_pending (logMsg \<lparr>Msg = ''Disabled mouse scroll/clicks'', Type = Info\<rparr>)) =
     [GoSleepSend 3 (getLogCmd [] Info)] \<and>
   model_of (Update plain m_pending (logMsg \<lparr>Msg = ''No results found'', Type = Warning\<rparr>)) =
     Some m_pending \<and>
   model_of (Update plain m_pending (CmdValue (getLogCmd [] Info))) = Some m_pending"
  by (simp add: Update_logMsg Update_fallthrough started_def model_of_def widgets_def
      m_pending_def plain_ta_Update_def plain_tb_Update_def)

text \<open>
  Claim C3, amended.  A notification with a text starts exactly one timer, of 3 seconds,
  that sends the command for the empty notification; an empty notification starts none.
  Neither a notification nor what the timer sends changes the state, the result, the
  error or the mouse flag, emits a notification or starts a goroutine: a timer that fires
  is without effect on the session, whether or not a newer notification has arrived.
\<close>

theorem notification_timer:
  "started (Update l m (logMsg n)) =
     (if Msg n = [] then [] else [GoSleepSend 3 (getLogCmd [] Info)]) \<and>
   (msg = logMsg n \<or> msg = CmdValue c \<longrightarrow>
      model_of (Update l m msg) = Some (widgets l m msg) \<and>
      state (widgets l m msg) = state m \<and> response (widgets l m msg) = response m \<and>
      err (widgets l m msg) = err m \<and> mouse (widgets l m msg) = mouse m \<and>
      logs_of (command_of (Update l m msg)) = []) \<and>
   started (Update l m (CmdValue c)) = []"
  by (auto simp: Update_logMsg Update_fallthrough started_def model_of_def command_of_def)

theorem notification_timer_witness:
  "started (Update plain m_list (logMsg \<lparr>Msg = ''No results found'', Type = Warning\<rparr>)) =
     [GoSleepSend 3 (getLogCmd [] Info)] \<and>
   state_of (Update plain m_list (CmdValue (getLogCmd [] Info))) = Some DisplayingAllQuestions \<and>
   started (Update plain m_list (CmdValue (getLogCmd [] Info))) = []"
  using notification_timer[where l = plain and m = m_list
      and n = "\<lparr>Msg = ''No results found'', Type = Warning\<rparr>"
      and msg = "CmdValue (getLogCmd [] Info)" and c = "getLogCmd [] Info"]
  by (simp add: state_of_def) (simp add: m_list_def)

end
